theory Spec2Isabelle
  imports Complex_Main "HOL-Library.AList"
begin

section \<open>Data model\<close>

text \<open>
  The three TypeScript modules (\<^verbatim>\<open>arController\<close>, \<^verbatim>\<open>animationController\<close>,
  \<^verbatim>\<open>modelLoader\<close>) keep their state in module-level variables and in objects of the
  rendering library. Object references are handles (natural numbers); the objects a
  handle points to live in an explicit store, so that identity (two references to the
  same object) and content are kept apart. JavaScript numbers are modelled as real
  numbers. Console output is not modelled.
\<close>

datatype AnimalModel = AlexBird | Bear | Deer

type_synonym handle = nat

datatype Vector3 = Vector3 (vec_x: real) (vec_y: real) (vec_z: real)

record Material =
  material_id :: handle
  isMeshStandardMaterial :: bool
  color :: nat
  roughness :: real
  metalness :: real
  needsUpdate :: bool

datatype material_slot =
    NoMaterial
  | SingleMaterial Material
  | MaterialArray "Material list"

record Mesh =
  geometry :: "handle option"
  material :: material_slot
  castShadow :: bool
  receiveShadow :: bool

text \<open>
  An \<^verbatim>\<open>Object3D\<close> with its transform and the meshes that \<^verbatim>\<open>traverse\<close> visits in its
  subtree.
\<close>

record Object3D =
  position :: Vector3
  scale :: Vector3
  rotation_y :: real
  meshes :: "Mesh list"

record js_error =
  name :: string
  message :: string

definition Error :: "string \<Rightarrow> js_error" where
  "Error msg = \<lparr>name = ''Error'', message = msg\<rparr>"

datatype 'a attempt = Returns 'a | Throws js_error

record response =
  ok :: bool
  status :: nat

record app_error =
  type :: string
  message :: string

record result =
  success :: bool
  error :: "app_error option"

record MediaStream =
  stream_id :: handle
  tracks :: "handle list"

record MindARThreeInstance =
  engine_id :: handle
  engine_renderer :: "handle option"
  engine_scene :: "handle option"
  engine_camera :: "handle option"

record MindARAnchor =
  anchor_id :: handle
  group :: "handle list"
  listeners :: "string list"

datatype progress_value = Percent real | NotFinite

record xhr =
  lengthComputable :: bool
  loaded :: real
  total :: real

datatype gltf_outcome = GltfLoaded Object3D | GltfError js_error

datatype 'a promise = Resolved 'a | Rejected js_error

datatype event =
    CanvasGetContext string
  | HeadRequest string
  | GetUserMedia
  | TrackStop handle
  | NewMindARThree handle string
  | ConfigureRenderer handle
  | AddAnchor nat
  | SceneAdd handle
  | AddEventListener string
  | EngineStart handle
  | EngineStop handle
  | RequestAnimationFrame nat
  | CancelAnimationFrame nat
  | Render handle handle handle
  | NewLoaders
  | GltfLoad string
  | Progress progress_value
  | ModelProgress string progress_value
  | DisposeGeometry handle
  | DisposeMaterial handle

record AnimationEntry =
  emergenceProgress :: real
  idleTime :: real
  targetScale :: real
  targetY :: real

text \<open>
  The browser, the network and the tracking engine, as seen during one call: what each
  external operation answers.
\<close>

record env =
  getContext :: "string \<Rightarrow> bool attempt"
  fetch_head :: "string \<Rightarrow> response attempt"
  window_MindARThree :: "nat \<Rightarrow> bool"
  getUserMedia :: "MediaStream attempt"
  construct_MindARThree :: "MindARThreeInstance attempt"
  addAnchor :: "handle option attempt"
  engine_start :: "unit attempt"
  gltf_load :: "string \<Rightarrow> xhr list \<times> gltf_outcome"

text \<open>
  The module-level variables of the three modules, the object store
  (\<open>heap\<close>, with the allocation counter \<open>next_id\<close>) and the log of the
  external operations performed so far (\<open>trace\<close>, oldest first). The model cache is
  a JavaScript \<^verbatim>\<open>Map\<close>, which iterates in insertion order: an association list.
\<close>

record world =
  mindarThree :: "MindARThreeInstance option"
  renderer :: "handle option"
  scene :: "handle option"
  camera :: "handle option"
  anchor :: "MindARAnchor option"
  currentModel :: "handle option"
  animationFrameId :: "nat option"
  isTracking :: bool
  cameraStream :: "MediaStream option"
  ambientLight :: "handle option"
  directionalLight :: "handle option"
  shadowPlane :: "handle option"
  animationState :: "handle \<rightharpoonup> AnimationEntry"
  modelCache :: "(AnimalModel \<times> handle) list"
  gltfLoader :: bool
  dracoLoader :: bool
  heap :: "handle \<Rightarrow> Object3D"
  next_id :: handle
  trace :: "event list"

definition blank_object :: Object3D where
  "blank_object = \<lparr>position = Vector3 0 0 0, scale = Vector3 1 1 1, rotation_y = 0, meshes = []\<rparr>"

definition init_world :: world where
  "init_world = \<lparr>mindarThree = None, renderer = None, scene = None, camera = None,
     anchor = None, currentModel = None, animationFrameId = None, isTracking = False,
     cameraStream = None, ambientLight = None, directionalLight = None, shadowPlane = None,
     animationState = Map.empty, modelCache = [], gltfLoader = False,
     dracoLoader = False, heap = (\<lambda>_. blank_object), next_id = 0, trace = []\<rparr>"

definition emit :: "event \<Rightarrow> world \<Rightarrow> world" where
  "emit e w = w\<lparr>trace := trace w @ [e]\<rparr>"

definition alloc :: "Object3D \<Rightarrow> world \<Rightarrow> handle \<times> world" where
  "alloc ob w = (next_id w, w\<lparr>heap := (heap w)(next_id w := ob), next_id := Suc (next_id w)\<rparr>)"

definition fresh_handle :: "world \<Rightarrow> handle \<times> world" where
  "fresh_handle w = (next_id w, w\<lparr>next_id := Suc (next_id w)\<rparr>)"

text \<open>The events logged between an earlier world and a later one.\<close>

definition events_since :: "world \<Rightarrow> world \<Rightarrow> event list" where
  "events_since w w' = drop (length (trace w)) (trace w')"

section \<open>animationController\<close>

definition easeOutBack :: "real \<Rightarrow> real" where
  "easeOutBack t =
     (let c1 = 1.70158; c3 = c1 + 1
      in 1 + c3 * (t - 1) ^ 3 + c1 * (t - 1) ^ 2)"

definition startEmergenceAnimation :: "handle \<Rightarrow> world \<Rightarrow> world" where
  "startEmergenceAnimation model w =
     (let ob = heap w model
      in w\<lparr>animationState := (animationState w)(model \<mapsto>
              \<lparr>emergenceProgress = 0, idleTime = 0, targetScale = 0.3, targetY = 0.15\<rparr>),
           heap := (heap w)(model := ob\<lparr>scale := Vector3 0.01 0.01 0.01,
              position := Vector3 (vec_x (position ob)) (- 0.05) 0\<rparr>)\<rparr>)"

definition emergence_step :: "AnimationEntry \<Rightarrow> real \<Rightarrow> AnimationEntry" where
  "emergence_step state delta =
     (let p = emergenceProgress state + delta * 0.8
      in state\<lparr>emergenceProgress := (if p > 1 then 1 else p)\<rparr>)"

definition emergence_pose :: "AnimationEntry \<Rightarrow> Object3D \<Rightarrow> Object3D" where
  "emergence_pose state ob =
     (let easedProgress = easeOutBack (emergenceProgress state);
          s = 0.01 + (targetScale state - 0.01) * easedProgress;
          y = - 0.05 + (targetY state + 0.05) * easedProgress;
          z = 0.1 * easedProgress;
          y' = (if emergenceProgress state > 0.8
                then y + sin ((emergenceProgress state - 0.8) / 0.2 * pi) * 0.02
                else y)
      in ob\<lparr>scale := Vector3 s s s, position := Vector3 (vec_x (position ob)) y' z\<rparr>)"

definition idle_pose :: "AnimationEntry \<Rightarrow> Object3D \<Rightarrow> Object3D" where
  "idle_pose state ob =
     (let breathScale = sin (idleTime state * 1.5) * 0.01;
          currentScale = targetScale state + breathScale;
          bob = sin (idleTime state * 2) * 0.008
      in ob\<lparr>scale := Vector3 currentScale currentScale currentScale,
            position := Vector3 (vec_x (position ob)) (targetY state + bob) (vec_z (position ob)),
            rotation_y := sin (idleTime state * 0.5) * 0.1\<rparr>)"

definition updateIdleAnimation :: "handle \<Rightarrow> real \<Rightarrow> world \<Rightarrow> world" where
  "updateIdleAnimation model delta w =
     (case animationState w model of
        None \<Rightarrow> w
      | Some state \<Rightarrow>
          if emergenceProgress state < 1 then
            (let state' = emergence_step state delta
             in w\<lparr>animationState := (animationState w)(model \<mapsto> state'),
                  heap := (heap w)(model := emergence_pose state' (heap w model))\<rparr>)
          else
            (let state' = state\<lparr>idleTime := idleTime state + delta\<rparr>
             in w\<lparr>animationState := (animationState w)(model \<mapsto> state'),
                  heap := (heap w)(model := idle_pose state' (heap w model))\<rparr>))"

text \<open>A sequence of render ticks: one \<open>updateIdleAnimation\<close> per elapsed time.\<close>

fun updates :: "handle \<Rightarrow> real list \<Rightarrow> world \<Rightarrow> world" where
  "updates model [] w = w"
| "updates model (delta # deltas) w = updates model deltas (updateIdleAnimation model delta w)"


section \<open>modelLoader\<close>

text \<open>
  The optional \<^verbatim>\<open>onProgress\<close> argument of \<open>loadModel\<close>: a caller's own callback, or
  the wrapper that \<open>preloadAllModels\<close> passes (it forwards to the outer callback when
  there is one). \<open>invoke\<close> gives the events one call of it causes.
\<close>

datatype callback = OnProgress | PreloadWrapper string bool

type_synonym progress_callback = "callback option"

definition invoke :: "callback \<Rightarrow> progress_value \<Rightarrow> event list" where
  "invoke c v =
     (case c of
        OnProgress \<Rightarrow> [Progress v]
      | PreloadWrapper modelName outer \<Rightarrow> if outer then [ModelProgress modelName v] else [])"

definition emit_all :: "event list \<Rightarrow> world \<Rightarrow> world" where
  "emit_all es w = w\<lparr>trace := trace w @ es\<rparr>"

text \<open>\<^verbatim>\<open>if (onProgress) onProgress(v)\<close>\<close>

definition report :: "progress_callback \<Rightarrow> progress_value \<Rightarrow> world \<Rightarrow> world" where
  "report onProgress v w = (case onProgress of None \<Rightarrow> w | Some c \<Rightarrow> emit_all (invoke c v) w)"

definition initializeLoaders :: "world \<Rightarrow> world" where
  "initializeLoaders w =
     (if gltfLoader w then w
      else emit NewLoaders (w\<lparr>dracoLoader := True, gltfLoader := True\<rparr>))"

definition modelPaths :: "AnimalModel \<Rightarrow> string" where
  "modelPaths modelName =
     (case modelName of
        AlexBird \<Rightarrow> ''/models/AlexBird-1.glb''
      | Bear \<Rightarrow> ''/models/Bear-1.glb''
      | Deer \<Rightarrow> ''/models/Deer-1.glb'')"

text \<open>
  \<^verbatim>\<open>Object3D.clone()\<close>: a new object with a copy of the transform and of the child
  meshes; the copies share geometries and materials with the original.
\<close>

definition clone :: "handle \<Rightarrow> world \<Rightarrow> handle \<times> world" where
  "clone original w = alloc (heap w original) w"

text \<open>The loader's progress handler, once per transfer event.\<close>

definition xhr_progress :: "xhr \<Rightarrow> progress_value" where
  "xhr_progress x = (if total x = 0 then NotFinite else Percent (loaded x / total x * 100))"

fun report_xhrs :: "progress_callback \<Rightarrow> xhr list \<Rightarrow> world \<Rightarrow> world" where
  "report_xhrs onProgress [] w = w"
| "report_xhrs onProgress (x # xs) w =
     report_xhrs onProgress xs
       (if onProgress \<noteq> None \<and> lengthComputable x then report onProgress (xhr_progress x) w else w)"

definition placeholder_color :: "AnimalModel \<Rightarrow> nat" where
  "placeholder_color modelName =
     (if modelName = AlexBird then 3900150 else if modelName = Bear then 9127187 else 2278750)"

definition placeholder_mesh :: "AnimalModel \<Rightarrow> handle \<Rightarrow> handle \<Rightarrow> Mesh" where
  "placeholder_mesh modelName geometry_h material_h =
     \<lparr>geometry = Some geometry_h,
      material = SingleMaterial \<lparr>material_id = material_h, isMeshStandardMaterial = True,
        color = placeholder_color modelName, roughness = 0.7, metalness = 0.3,
        needsUpdate = False\<rparr>,
      castShadow = True, receiveShadow = True\<rparr>"

definition createPlaceholderModel :: "AnimalModel \<Rightarrow> world \<Rightarrow> handle \<times> world" where
  "createPlaceholderModel modelName w =
     (let (group_h, w1) = alloc blank_object w;
          (geometry_h, w2) = fresh_handle w1;
          (material_h, w3) = fresh_handle w2;
          mesh = placeholder_mesh modelName geometry_h material_h
      in (group_h, w3\<lparr>heap := (heap w3)(group_h := (heap w3 group_h)\<lparr>meshes := [mesh]\<rparr>)\<rparr>))"

text \<open>
  \<open>loadModel\<close>. The loader's three callbacks (loaded, progress, error) are the
  environment's answer for the model's path: the transfer events, then a decoded scene or
  an error. A decoded glTF carries its scene. The rejection of the inner promise is caught
  by the \<^verbatim>\<open>try\<close> block, which builds the placeholder.
\<close>

definition loadModel ::
  "env \<Rightarrow> AnimalModel \<Rightarrow> progress_callback \<Rightarrow> world \<Rightarrow> handle option promise \<times> world" where
  "loadModel e modelName onProgress w0 =
     (let w = initializeLoaders w0
      in case map_of (modelCache w) modelName of
           Some cached \<Rightarrow>
             (let w1 = report onProgress (Percent 100) w;
                  (copy, w2) = clone cached w1
              in (Resolved (Some copy), w2))
         | None \<Rightarrow>
             if \<not> gltfLoader w then (Resolved None, w)
             else
               (let modelPath = modelPaths modelName;
                    w1 = emit (GltfLoad modelPath) w;
                    (xhrs, outcome) = gltf_load e modelPath;
                    w2 = report_xhrs onProgress xhrs w1
                in case outcome of
                     GltfLoaded gltf_scene \<Rightarrow>
                       (let (model, w3) = alloc gltf_scene w2;
                            w4 = w3\<lparr>modelCache := AList.update modelName model (modelCache w3)\<rparr>;
                            w5 = report onProgress (Percent 100) w4;
                            (copy, w6) = clone model w5
                        in (Resolved (Some copy), w6))
                   | GltfError err \<Rightarrow>
                       (let (fallback, w3) = createPlaceholderModel modelName w2;
                            w4 = report onProgress (Percent 100) w3
                        in (Resolved (Some fallback), w4))))"

definition model_label :: "AnimalModel \<Rightarrow> string" where
  "model_label modelName =
     (case modelName of AlexBird \<Rightarrow> ''AlexBird'' | Bear \<Rightarrow> ''Bear'' | Deer \<Rightarrow> ''Deer'')"

fun preload_each :: "env \<Rightarrow> bool \<Rightarrow> AnimalModel list \<Rightarrow> world \<Rightarrow> world" where
  "preload_each e onProgress [] w = w"
| "preload_each e onProgress (modelName # models) w =
     preload_each e onProgress models
       (snd (loadModel e modelName (Some (PreloadWrapper (model_label modelName) onProgress)) w))"

definition preloadAllModels :: "env \<Rightarrow> bool \<Rightarrow> world \<Rightarrow> world" where
  "preloadAllModels e onProgress w = preload_each e onProgress [AlexBird, Bear, Deer] w"

definition dispose_mesh :: "Mesh \<Rightarrow> world \<Rightarrow> world" where
  "dispose_mesh mesh w =
     (let w1 = (case geometry mesh of None \<Rightarrow> w | Some g \<Rightarrow> emit (DisposeGeometry g) w)
      in case material mesh of
           NoMaterial \<Rightarrow> w1
         | SingleMaterial mat \<Rightarrow> emit (DisposeMaterial (material_id mat)) w1
         | MaterialArray mats \<Rightarrow> emit_all (map (\<lambda>mat. DisposeMaterial (material_id mat)) mats) w1)"

definition disposeModel :: "handle \<Rightarrow> world \<Rightarrow> world" where
  "disposeModel model w = fold dispose_mesh (meshes (heap w model)) w"

definition clearModelCache :: "world \<Rightarrow> world" where
  "clearModelCache w = (fold (\<lambda>(name, model). disposeModel model) (modelCache w) w)\<lparr>modelCache := []\<rparr>"




section \<open>arController\<close>

definition succeed :: result where
  "succeed = \<lparr>success = True, error = None\<rparr>"

definition fail :: "string \<Rightarrow> string \<Rightarrow> result" where
  "fail t m = \<lparr>success = False, error = Some \<lparr>type = t, message = m\<rparr>\<rparr>"

text \<open>\<^verbatim>\<open>s || d\<close> on strings: the default replaces an empty (or absent) string.\<close>

definition or_default :: "string \<Rightarrow> string \<Rightarrow> string" where
  "or_default s d = (if s = [] then d else s)"

text \<open>\<^verbatim>\<open>s.includes(sub)\<close>\<close>

fun starts_with :: "string \<Rightarrow> string \<Rightarrow> bool" where
  "starts_with s [] = True"
| "starts_with [] (c # cs) = False"
| "starts_with (d # ds) (c # cs) = (d = c \<and> starts_with ds cs)"

fun str_includes :: "string \<Rightarrow> string \<Rightarrow> bool" where
  "str_includes [] sub = (sub = [])"
| "str_includes (d # ds) sub = (starts_with (d # ds) sub \<or> str_includes ds sub)"

definition targetPath :: string where
  "targetPath = ''/targets/shirt-target.mind''"

subsection \<open>waitForMindAR\<close>

text \<open>
  \<open>window_MindARThree e n\<close> tells whether the library is present at the \<open>n\<close>-th
  firing of the 100 ms timer (\<open>0\<close>: when \<open>waitForMindAR\<close> is called). The result is
  the firing at which the promise resolved, or \<open>None\<close> when it was rejected after the
  hundredth attempt.
\<close>

function poll_MindAR :: "env \<Rightarrow> nat \<Rightarrow> nat option" where
  "poll_MindAR e attempts =
     (let attempts' = Suc attempts
      in if window_MindARThree e attempts' then Some attempts'
         else if attempts' \<ge> 100 then None
         else poll_MindAR e attempts')"
  by pat_completeness auto
termination
  by (relation "measure (\<lambda>(e, attempts). 100 - attempts)") auto

definition waitForMindAR :: "env \<Rightarrow> nat option" where
  "waitForMindAR e = (if window_MindARThree e 0 then Some 0 else poll_MindAR e 0)"

subsection \<open>validateAssets\<close>

definition validation_exception :: "js_error \<Rightarrow> result" where
  "validation_exception err =
     fail ''validation''
       (''Failed to validate AR assets: '' @ or_default (js_error.message err) ''Network error'' @
        ''. Please check your internet connection.'')"

fun validate_models :: "env \<Rightarrow> string list \<Rightarrow> world \<Rightarrow> result \<times> world" where
  "validate_models e [] w = (succeed, w)"
| "validate_models e (modelPath # paths) w =
     (let w1 = emit (HeadRequest modelPath) w
      in case fetch_head e modelPath of
           Throws err \<Rightarrow> (validation_exception err, w1)
         | Returns modelResponse \<Rightarrow>
             if \<not> ok modelResponse then
               (fail ''validation''
                  (''3D model file is missing ('' @ modelPath @
                   ''). Please ensure all model files are properly deployed.''), w1)
             else validate_models e paths w1)"

definition validateAssets :: "env \<Rightarrow> world \<Rightarrow> result \<times> world" where
  "validateAssets e w =
     (let w1 = emit (HeadRequest targetPath) w
      in case fetch_head e targetPath of
           Throws err \<Rightarrow> (validation_exception err, w1)
         | Returns targetResponse \<Rightarrow>
             if \<not> ok targetResponse then
               (fail ''validation''
                  (''AR tracking file is missing ('' @ targetPath @
                   ''). Please ensure the target file is properly deployed.''), w1)
             else validate_models e
                    [''/models/AlexBird-1.glb'', ''/models/Bear-1.glb'', ''/models/Deer-1.glb''] w1)"

subsection \<open>checkWebGLSupport\<close>

definition webgl_unsupported :: result where
  "webgl_unsupported = fail ''webgl''
     ''WebGL is not supported on this device. Please try using a modern browser like Chrome, Firefox, or Safari.''"

definition webgl_exception :: result where
  "webgl_exception = fail ''webgl''
     ''Failed to initialize WebGL. Your device may not support AR experiences.''"

definition checkWebGLSupport :: "env \<Rightarrow> world \<Rightarrow> result \<times> world" where
  "checkWebGLSupport e w =
     (let w1 = emit (CanvasGetContext ''webgl'') w
      in case getContext e ''webgl'' of
           Throws err \<Rightarrow> (webgl_exception, w1)
         | Returns True \<Rightarrow> (succeed, w1)
         | Returns False \<Rightarrow>
             (let w2 = emit (CanvasGetContext ''experimental-webgl'') w1
              in case getContext e ''experimental-webgl'' of
                   Throws err \<Rightarrow> (webgl_exception, w2)
                 | Returns True \<Rightarrow> (succeed, w2)
                 | Returns False \<Rightarrow> (webgl_unsupported, w2)))"

subsection \<open>requestCameraPermission\<close>

definition stop_tracks :: "MediaStream \<Rightarrow> world \<Rightarrow> world" where
  "stop_tracks stream w = emit_all (map TrackStop (tracks stream)) w"

definition camera_error :: "js_error \<Rightarrow> result" where
  "camera_error err =
     (if name err = ''NotAllowedError'' \<or> name err = ''PermissionDeniedError'' then
        fail ''permission''
          ''Camera access denied. Please enable camera permissions in your browser settings and refresh the page.''
      else if name err = ''NotFoundError'' \<or> name err = ''DevicesNotFoundError'' then
        fail ''not-found''
          ''No camera found on your device. Please ensure your device has a camera.''
      else if name err = ''NotReadableError'' \<or> name err = ''TrackStartError'' then
        fail ''in-use''
          ''Camera is already in use by another application. Please close other apps using the camera and try again.''
      else
        fail ''unknown''
          (''Failed to access camera: '' @ or_default (js_error.message err) ''Unknown error'' @
           ''. Please check your browser settings and try again.''))"

definition requestCameraPermission :: "env \<Rightarrow> world \<Rightarrow> result \<times> world" where
  "requestCameraPermission e w =
     (let w1 = emit GetUserMedia w
      in case getUserMedia e of
           Returns stream \<Rightarrow>
             (let w2 = w1\<lparr>cameraStream := Some stream\<rparr>;
                  w3 = (stop_tracks stream w2)\<lparr>cameraStream := None\<rparr>
              in (succeed, w3))
         | Throws err \<Rightarrow> (camera_error err, w1))"

subsection \<open>initializeAR\<close>

definition setupLighting :: "world \<Rightarrow> world" where
  "setupLighting w =
     (case scene w of
        None \<Rightarrow> w
      | Some sc \<Rightarrow>
          (let (ambient, w1) = fresh_handle w;
               w2 = emit (SceneAdd ambient) (w1\<lparr>ambientLight := Some ambient\<rparr>);
               (directional, w3) = fresh_handle w2
           in emit (SceneAdd directional) (w3\<lparr>directionalLight := Some directional\<rparr>)))"

text \<open>
  The shadow plane: only its place under the anchor matters here; its own geometry and
  material are created once and never touched again by the controller.
\<close>

definition shadow_plane_object :: Object3D where
  "shadow_plane_object =
     \<lparr>position = Vector3 0 (- 0.01) 0, scale = Vector3 1 1 1, rotation_y = 0, meshes = []\<rparr>"

definition setupShadowPlane :: "world \<Rightarrow> world" where
  "setupShadowPlane w =
     (case anchor w of
        None \<Rightarrow> w
      | Some a \<Rightarrow>
          (let (plane, w1) = alloc shadow_plane_object w
           in w1\<lparr>shadowPlane := Some plane, anchor := Some (a\<lparr>group := group a @ [plane]\<rparr>)\<rparr>))"

definition scene_failure :: "js_error \<Rightarrow> result" where
  "scene_failure err =
     fail ''initialization''
       (''Failed to setup AR scene: '' @ or_default (js_error.message err) ''Unknown error'' @
        ''. Please refresh the page.'')"

text \<open>Step 6 of \<open>initializeAR\<close>: the scene set-up inside its own \<^verbatim>\<open>try\<close> block.\<close>

definition setupScene :: "env \<Rightarrow> MindARThreeInstance \<Rightarrow> world \<Rightarrow> result \<times> world" where
  "setupScene e inst w =
     (let w1 = w\<lparr>renderer := engine_renderer inst, scene := engine_scene inst,
                  camera := engine_camera inst\<rparr>
      in case renderer w1 of
           None \<Rightarrow> (scene_failure (Error ''Failed to initialize renderer''), w1)
         | Some r \<Rightarrow>
             (let w2 = emit (AddAnchor 0) (emit (ConfigureRenderer r) w1)
              in case addAnchor e of
                   Throws err \<Rightarrow> (scene_failure err, w2)
                 | Returns None \<Rightarrow>
                     (scene_failure (Error ''Failed to create AR anchor''), w2\<lparr>anchor := None\<rparr>)
                 | Returns (Some a) \<Rightarrow>
                     (let w3 = w2\<lparr>anchor := Some \<lparr>anchor_id = a, group = [], listeners = []\<rparr>\<rparr>;
                          w4 = setupShadowPlane (setupLighting w3);
                          w5 = (case anchor w4 of
                                  None \<Rightarrow> w4
                                | Some an \<Rightarrow>
                                    emit (AddEventListener ''targetLost'')
                                      (emit (AddEventListener ''targetFound'')
                                        (w4\<lparr>anchor := Some (an\<lparr>listeners :=
                                           listeners an @ [''targetFound'', ''targetLost'']\<rparr>)\<rparr>)))
                      in (succeed, w5))))"

text \<open>Step 5 of \<open>initializeAR\<close>: the engine instance, inside its own \<^verbatim>\<open>try\<close> block.\<close>

definition instance_failure :: "js_error \<Rightarrow> result" where
  "instance_failure err =
     (if js_error.message err \<noteq> [] \<and> str_includes (js_error.message err) ''target'' then
        fail ''initialization''
          ''Invalid AR target file. The tracking image may be corrupted. Please refresh the page.''
      else
        fail ''initialization''
          (''Failed to initialize AR tracking: '' @ or_default (js_error.message err) ''Unknown error'' @
           ''. Please refresh the page.''))"

definition initializeAR :: "env \<Rightarrow> handle \<Rightarrow> world \<Rightarrow> result \<times> world" where
  "initializeAR e container w0 =
     (let (webglCheck, w1) = checkWebGLSupport e w0
      in if \<not> success webglCheck then (webglCheck, w1)
         else
           (let (assetValidation, w2) = validateAssets e w1
            in if \<not> success assetValidation then (assetValidation, w2)
               else
                 (case waitForMindAR e of
                    None \<Rightarrow>
                      (fail ''library''
                         ''MindAR library failed to load from CDN. Please check your internet connection.'',
                       w2)
                  | Some firing \<Rightarrow>
                      if \<not> window_MindARThree e firing then
                        (fail ''library'' ''AR library failed to load. Please refresh the page.'', w2)
                      else
                        (let (permissionResult, w3) = requestCameraPermission e w2
                         in if \<not> success permissionResult then (permissionResult, w3)
                            else
                              (let w4 = emit (NewMindARThree container targetPath) w3
                               in case construct_MindARThree e of
                                    Throws err \<Rightarrow> (instance_failure err, w4)
                                  | Returns inst \<Rightarrow>
                                      setupScene e inst (w4\<lparr>mindarThree := Some inst\<rparr>))))))"

subsection \<open>Target events, render loop, start and stop\<close>

definition onTargetFound :: "world \<Rightarrow> world" where
  "onTargetFound w =
     (let w1 = w\<lparr>isTracking := True\<rparr>
      in case currentModel w1 of None \<Rightarrow> w1 | Some model \<Rightarrow> startEmergenceAnimation model w1)"

definition onTargetLost :: "world \<Rightarrow> world" where
  "onTargetLost w = w\<lparr>isTracking := False\<rparr>"

text \<open>One firing of \<^verbatim>\<open>animate\<close>, with the clock's elapsed time.\<close>

definition animate :: "real \<Rightarrow> world \<Rightarrow> world" where
  "animate delta w =
     (let (frame, w1) = fresh_handle w;
          w2 = emit (RequestAnimationFrame frame) (w1\<lparr>animationFrameId := Some frame\<rparr>);
          w3 = (case currentModel w2 of
                  Some model \<Rightarrow> if isTracking w2 then updateIdleAnimation model delta w2 else w2
                | None \<Rightarrow> w2)
      in case (renderer w3, scene w3, camera w3) of
           (Some r, Some sc, Some c) \<Rightarrow> emit (Render r sc c) w3
         | _ \<Rightarrow> w3)"

definition startRenderLoop :: "world \<Rightarrow> world" where
  "startRenderLoop w = animate 0 w"

definition start_failure :: "js_error \<Rightarrow> js_error" where
  "start_failure err =
     (if js_error.message err \<noteq> [] \<and> str_includes (js_error.message err) ''camera'' then
        Error ''Failed to access camera for AR tracking. Please check camera permissions.''
      else if js_error.message err \<noteq> [] \<and> str_includes (js_error.message err) ''target'' then
        Error ''Failed to load AR target. The tracking image may be invalid.''
      else
        Error (''Failed to start AR tracking: '' @ or_default (js_error.message err) ''Unknown error''))"

definition startAR :: "env \<Rightarrow> world \<Rightarrow> unit attempt \<times> world" where
  "startAR e w =
     (case mindarThree w of
        None \<Rightarrow> (Throws (Error ''AR system not initialized. Please refresh the page.''), w)
      | Some inst \<Rightarrow>
          (let w1 = emit (EngineStart (engine_id inst)) w
           in case engine_start e of
                Throws err \<Rightarrow> (Throws (start_failure err), w1)
              | Returns u \<Rightarrow> (Returns (), startRenderLoop w1)))"

definition stopAR :: "world \<Rightarrow> world" where
  "stopAR w =
     (let w1 = (case animationFrameId w of
                  None \<Rightarrow> w
                | Some frame \<Rightarrow> (emit (CancelAnimationFrame frame) w)\<lparr>animationFrameId := None\<rparr>);
          w2 = (case mindarThree w1 of
                  None \<Rightarrow> w1
                | Some inst \<Rightarrow> emit (EngineStop (engine_id inst)) w1);
          w3 = (case currentModel w2 of
                  None \<Rightarrow> w2
                | Some model \<Rightarrow> (disposeModel model w2)\<lparr>currentModel := None\<rparr>);
          w4 = (case cameraStream w3 of
                  None \<Rightarrow> w3
                | Some stream \<Rightarrow> (stop_tracks stream w3)\<lparr>cameraStream := None\<rparr>)
      in w4)"

subsection \<open>switchModel\<close>

definition refresh_material :: "Material \<Rightarrow> Material" where
  "refresh_material mat = (if isMeshStandardMaterial mat then mat\<lparr>needsUpdate := True\<rparr> else mat)"

definition prepare_mesh :: "Mesh \<Rightarrow> Mesh" where
  "prepare_mesh mesh =
     mesh\<lparr>castShadow := True, receiveShadow := True,
          material := (case material mesh of
                         NoMaterial \<Rightarrow> NoMaterial
                       | SingleMaterial mat \<Rightarrow> SingleMaterial (refresh_material mat)
                       | MaterialArray mats \<Rightarrow> MaterialArray (map refresh_material mats))\<rparr>"

text \<open>
  The first step of \<open>switchModel\<close>: the current model, if any, leaves the anchor's
  group and is disposed.
\<close>

definition removeCurrentModel :: "MindARAnchor \<Rightarrow> world \<Rightarrow> world" where
  "removeCurrentModel a w =
     (case currentModel w of
        None \<Rightarrow> w
      | Some old \<Rightarrow>
          (disposeModel old (w\<lparr>anchor := Some (a\<lparr>group := remove1 old (group a)\<rparr>)\<rparr>))
            \<lparr>currentModel := None\<rparr>)"

text \<open>
  \<open>switchModel\<close> with the loader it awaits as a parameter. The parameter stands for
  \<^verbatim>\<open>await loadModel(modelName)\<close>: it resolves with an object, resolves with
  \<^verbatim>\<open>null\<close>, or rejects. The module variable \<^verbatim>\<open>anchor\<close> is read again after the
  \<^verbatim>\<open>await\<close>; a missing anchor there raises inside the \<^verbatim>\<open>try\<close> block and is
  caught. The materials refreshed are those of the new instance's meshes.
\<close>

definition switchModel_with ::
  "(AnimalModel \<Rightarrow> world \<Rightarrow> handle option promise \<times> world) \<Rightarrow> AnimalModel \<Rightarrow> world \<Rightarrow>
     unit attempt \<times> world" where
  "switchModel_with load modelName w =
     (case anchor w of
        None \<Rightarrow> (Returns (), w)
      | Some a \<Rightarrow>
          (let w1 = removeCurrentModel a w;
               (loaded, w2) = load modelName w1
           in case loaded of
                Rejected err \<Rightarrow> (Returns (), w2)
              | Resolved None \<Rightarrow> (Returns (), w2)
              | Resolved (Some model) \<Rightarrow>
                  (let ob = heap w2 model;
                       w3 = w2\<lparr>heap := (heap w2)(model := ob\<lparr>position := Vector3 0 0 0,
                              scale := Vector3 0.01 0.01 0.01,
                              meshes := map prepare_mesh (meshes ob)\<rparr>)\<rparr>
                   in case anchor w3 of
                        None \<Rightarrow> (Returns (), w3)
                      | Some a' \<Rightarrow>
                          (let w4 = w3\<lparr>anchor := Some (a'\<lparr>group := group a' @ [model]\<rparr>),
                                      currentModel := Some model\<rparr>
                           in (Returns (),
                               if isTracking w4 then startEmergenceAnimation model w4 else w4)))))"

definition switchModel :: "env \<Rightarrow> AnimalModel \<Rightarrow> world \<Rightarrow> unit attempt \<times> world" where
  "switchModel e modelName w = switchModel_with (\<lambda>m. loadModel e m None) modelName w"

definition getRenderer :: "world \<Rightarrow> handle option" where
  "getRenderer w = renderer w"


section \<open>Observations and sample inputs\<close>




definition uniform_scale :: "Object3D \<Rightarrow> bool" where
  "uniform_scale ob \<longleftrightarrow> vec_y (scale ob) = vec_x (scale ob) \<and> vec_z (scale ob) = vec_x (scale ob)"



definition settled_world :: world where
  "settled_world = updateIdleAnimation 0 2 (startEmergenceAnimation 0 init_world)"


definition idle_bounds :: "AnimationEntry \<Rightarrow> Object3D \<Rightarrow> bool" where
  "idle_bounds st ob \<longleftrightarrow>
     uniform_scale ob \<and> \<bar>vec_x (scale ob) - targetScale st\<bar> \<le> 0.01 \<and>
     \<bar>vec_y (position ob) - targetY st\<bar> \<le> 0.008 \<and> \<bar>rotation_y ob\<bar> \<le> 0.1"

text \<open>Sample environments: everything works; the models cannot be fetched; no graphics
  context; the tracking target is missing (404).\<close>

definition sample_scene :: Object3D where
  "sample_scene =
     \<lparr>position = Vector3 0 0 0, scale = Vector3 1 1 1, rotation_y = 0,
      meshes = [\<lparr>geometry = Some 900,
                 material = SingleMaterial \<lparr>material_id = 901, isMeshStandardMaterial = True,
                   color = 16777215, roughness = 1, metalness = 0, needsUpdate = False\<rparr>,
                 castShadow = False, receiveShadow = False\<rparr>]\<rparr>"

definition env_online :: env where
  "env_online =
     \<lparr>getContext = (\<lambda>kind. Returns True),
      fetch_head = (\<lambda>path. Returns \<lparr>ok = True, status = 200\<rparr>),
      window_MindARThree = (\<lambda>firing. True),
      getUserMedia = Returns \<lparr>stream_id = 700, tracks = [701]\<rparr>,
      construct_MindARThree = Returns \<lparr>engine_id = 800, engine_renderer = Some 801,
        engine_scene = Some 802, engine_camera = Some 803\<rparr>,
      addAnchor = Returns (Some 804),
      engine_start = Returns (),
      gltf_load = (\<lambda>path. ([\<lparr>lengthComputable = True, loaded = 50, total = 100\<rparr>],
        GltfLoaded sample_scene))\<rparr>"


definition env_no_webgl :: env where
  "env_no_webgl = env_online\<lparr>getContext := (\<lambda>kind. Returns False)\<rparr>"

definition env_missing_target :: env where
  "env_missing_target =
     env_online\<lparr>fetch_head := (\<lambda>path.
        if path = targetPath then Returns \<lparr>ok = False, status = 404\<rparr>
        else Returns \<lparr>ok = True, status = 200\<rparr>)\<rparr>"

text \<open>Sample sessions: initialized; with the bear attached; started; target found.\<close>

definition ready_world :: world where
  "ready_world = snd (initializeAR env_online 0 init_world)"

definition shown_world :: world where
  "shown_world = snd (switchModel env_online Bear ready_world)"

definition started_world :: world where
  "started_world = snd (startAR env_online shown_world)"

definition tracked_world :: world where
  "tracked_world = onTargetFound started_world"

text \<open>The events a transfer causes through the progress handler.\<close>

definition fired :: "progress_callback \<Rightarrow> progress_value \<Rightarrow> event list" where
  "fired onProgress v = (case onProgress of None \<Rightarrow> [] | Some c \<Rightarrow> invoke c v)"

definition xhr_events :: "progress_callback \<Rightarrow> xhr list \<Rightarrow> event list" where
  "xhr_events onProgress xs =
     concat (map (\<lambda>x. if onProgress \<noteq> None \<and> lengthComputable x
                        then fired onProgress (xhr_progress x) else []) xs)"


text \<open>The event of \<open>initializeLoaders\<close>, when the loaders are not there yet.\<close>

definition loaders_event :: "world \<Rightarrow> event list" where
  "loaders_event w = (if gltfLoader w then [] else [NewLoaders])"

text \<open>The disposals \<open>disposeModel\<close> performs, and the operations of \<open>stopAR\<close>.\<close>

definition mesh_disposals :: "Mesh \<Rightarrow> event list" where
  "mesh_disposals mesh =
     (case geometry mesh of None \<Rightarrow> [] | Some g \<Rightarrow> [DisposeGeometry g]) @
     (case material mesh of
        NoMaterial \<Rightarrow> []
      | SingleMaterial mat \<Rightarrow> [DisposeMaterial (material_id mat)]
      | MaterialArray mats \<Rightarrow> map (\<lambda>mat. DisposeMaterial (material_id mat)) mats)"

definition disposals :: "Object3D \<Rightarrow> event list" where
  "disposals ob = concat (map mesh_disposals (meshes ob))"

definition engine_stop_events :: "world \<Rightarrow> event list" where
  "engine_stop_events w =
     (case mindarThree w of None \<Rightarrow> [] | Some inst \<Rightarrow> [EngineStop (engine_id inst)])"

definition stop_events :: "world \<Rightarrow> event list" where
  "stop_events w =
     (case animationFrameId w of None \<Rightarrow> [] | Some frame \<Rightarrow> [CancelAnimationFrame frame]) @
     engine_stop_events w @
     (case currentModel w of None \<Rightarrow> [] | Some model \<Rightarrow> disposals (heap w model)) @
     (case cameraStream w of None \<Rightarrow> [] | Some stream \<Rightarrow> map TrackStop (tracks stream))"

text \<open>Loaders for \<open>switchModel_with\<close> that fail: one rejects, one resolves with null.\<close>

definition rejecting_loader :: "AnimalModel \<Rightarrow> world \<Rightarrow> handle option promise \<times> world" where
  "rejecting_loader modelName w = (Rejected (Error ''out of memory''), w)"

definition null_loader :: "AnimalModel \<Rightarrow> world \<Rightarrow> handle option promise \<times> world" where
  "null_loader modelName w = (Resolved None, w)"

text \<open>The events of \<open>checkWebGLSupport\<close>.\<close>

definition webgl_events :: "env \<Rightarrow> event list" where
  "webgl_events e =
     CanvasGetContext ''webgl'' #
     (if getContext e ''webgl'' = Returns False then [CanvasGetContext ''experimental-webgl''] else [])"

section \<open>Verification: animationController\<close>






lemma idle_pose_bounds:
  "uniform_scale (idle_pose st ob) \<and> \<bar>vec_x (scale (idle_pose st ob)) - targetScale st\<bar> \<le> 0.01"
  "\<bar>vec_y (position (idle_pose st ob)) - targetY st\<bar> \<le> 0.008"
  "\<bar>rotation_y (idle_pose st ob)\<bar> \<le> 0.1"
proof -
  have a: "\<bar>sin x * c\<bar> \<le> c" if "0 \<le> c" for x c :: real
  proof -
    have "\<bar>sin x\<bar> * c \<le> 1 * c" by (rule mult_right_mono) (simp_all add: that)
    then show ?thesis using that by (simp add: abs_mult)
  qed
  show "uniform_scale (idle_pose st ob) \<and> \<bar>vec_x (scale (idle_pose st ob)) - targetScale st\<bar> \<le> 0.01"
    using a[of "0.01" "idleTime st * 1.5"] by (simp add: idle_pose_def Let_def uniform_scale_def)
  show "\<bar>vec_y (position (idle_pose st ob)) - targetY st\<bar> \<le> 0.008"
    using a[of "0.008" "idleTime st * 2"] by (simp add: idle_pose_def Let_def)
  show "\<bar>rotation_y (idle_pose st ob)\<bar> \<le> 0.1"
    using a[of "0.1" "idleTime st * 0.5"] by (simp add: idle_pose_def Let_def)
qed

lemma idle_pose_periodic:
  "idle_pose (st\<lparr>idleTime := idleTime st + 4 * pi\<rparr>) ob = idle_pose st ob"
proof -
  have p: "sin (x + 2 * pi * real n) = sin x" for x :: real and n :: nat
  proof (induction n)
    case 0
    show ?case by simp
  next
    case (Suc n)
    have "x + 2 * pi * real (Suc n) = (x + 2 * pi * real n) + 2 * pi"
      by (simp add: algebra_simps)
    then show ?case using Suc by (simp only: sin_periodic)
  qed
  have "sin ((idleTime st + 4 * pi) * 1.5) = sin (idleTime st * 1.5)"
    using p[of "idleTime st * 1.5" 3] by (simp add: algebra_simps)
  moreover have "sin ((idleTime st + 4 * pi) * 2) = sin (idleTime st * 2)"
    using p[of "idleTime st * 2" 4] by (simp add: algebra_simps)
  moreover have "sin ((idleTime st + 4 * pi) * 0.5) = sin (idleTime st * 0.5)"
    using p[of "idleTime st * 0.5" 1] by (simp add: algebra_simps)
  ultimately show ?thesis by (simp add: idle_pose_def Let_def)
qed












lemma idle_step:
  assumes "animationState w model = Some st" "1 \<le> emergenceProgress st"
  shows "updateIdleAnimation model delta w =
     w\<lparr>animationState := (animationState w)(model \<mapsto> st\<lparr>idleTime := idleTime st + delta\<rparr>),
       heap := (heap w)(model := idle_pose (st\<lparr>idleTime := idleTime st + delta\<rparr>) (heap w model))\<rparr>"
  using assms by (simp add: updateIdleAnimation_def Let_def)

lemma idle_updates:
  assumes "animationState w model = Some st" "1 \<le> emergenceProgress st"
  shows "animationState (updates model (d # ds) w) model =
           Some (st\<lparr>idleTime := idleTime st + sum_list (d # ds)\<rparr>) \<and>
         (\<exists>ob. heap (updates model (d # ds) w) model =
           idle_pose (st\<lparr>idleTime := idleTime st + sum_list (d # ds)\<rparr>) ob)"
  using assms
proof (induction ds arbitrary: w st d)
  case Nil
  then show ?case by (auto simp: idle_step)
next
  case (Cons e es)
  let ?w = "updateIdleAnimation model d w"
  let ?st = "st\<lparr>idleTime := idleTime st + d\<rparr>"
  have a: "animationState ?w model = Some ?st" and b: "1 \<le> emergenceProgress ?st"
    using Cons.prems by (simp_all add: idle_step)
  from Cons.IH[OF a b, of e] show ?case by (simp add: add.assoc)
qed

lemma idle_bounds_pose: "idle_bounds st (idle_pose (st\<lparr>idleTime := t\<rparr>) ob)"
  using idle_pose_bounds[of "st\<lparr>idleTime := t\<rparr>" ob] by (simp add: idle_bounds_def)

text \<open>
  Claim C8. Once the progress has reached 1, every further non-empty sequence of updates
  only accumulates idle time; the scale is uniform and within \<open>targetScale +/- 0.01\<close>,
  Y within \<open>targetY +/- 0.008\<close> and the yaw within \<open>+/- 0.1\<close>, whatever the deltas and
  however large the idle time; the pose is the idle pose of the accumulated idle time, a
  function of period \<open>4\<pi>\<close>.
\<close>

theorem idle_motion_bounded_periodic:
  assumes "animationState w model = Some st" and "1 \<le> emergenceProgress st" and "deltas \<noteq> []"
  shows "animationState (updates model deltas w) model =
           Some (st\<lparr>idleTime := idleTime st + sum_list deltas\<rparr>) \<and>
         idle_bounds st (heap (updates model deltas w) model) \<and>
         (\<exists>ob. heap (updates model deltas w) model =
            idle_pose (st\<lparr>idleTime := idleTime st + sum_list deltas\<rparr>) ob) \<and>
         (\<forall>t ob. idle_pose (st\<lparr>idleTime := t + 4 * pi\<rparr>) ob = idle_pose (st\<lparr>idleTime := t\<rparr>) ob)"
proof -
  from assms(3) obtain d ds where ds: "deltas = d # ds" by (cases deltas) auto
  note u = idle_updates[OF assms(1,2), of d ds, folded ds]
  from u obtain ob where ob: "heap (updates model deltas w) model =
      idle_pose (st\<lparr>idleTime := idleTime st + sum_list deltas\<rparr>) ob" by blast
  have b: "idle_bounds st (heap (updates model deltas w) model)"
    unfolding ob by (rule idle_bounds_pose)
  have p: "idle_pose (st\<lparr>idleTime := t + 4 * pi\<rparr>) ob' = idle_pose (st\<lparr>idleTime := t\<rparr>) ob'" for t ob'
    using idle_pose_periodic[of "st\<lparr>idleTime := t\<rparr>" ob'] by simp
  from u b p show ?thesis by blast
qed

lemma settled_world_state:
  "animationState settled_world 0 =
     Some \<lparr>emergenceProgress = 1, idleTime = 0, targetScale = 0.3, targetY = 0.15\<rparr>"
  by (simp add: settled_world_def updateIdleAnimation_def startEmergenceAnimation_def
      emergence_step_def Let_def)

text \<open>
  Claim C8, a concrete run: a settled model after a million seconds of idle time.
\<close>

theorem idle_motion_bounded_periodic_witness:
  "animationState settled_world 0 =
     Some \<lparr>emergenceProgress = 1, idleTime = 0, targetScale = 0.3, targetY = 0.15\<rparr> \<and>
   1 \<le> emergenceProgress \<lparr>emergenceProgress = 1, idleTime = 0, targetScale = 0.3, targetY = 0.15\<rparr> \<and>
   [1000000, 0.016 :: real] \<noteq> [] \<and>
   idle_bounds \<lparr>emergenceProgress = 1, idleTime = 0, targetScale = 0.3, targetY = 0.15\<rparr>
     (heap (updates 0 [1000000, 0.016] settled_world) 0)"
proof -
  have h2: "1 \<le> emergenceProgress \<lparr>emergenceProgress = 1, idleTime = 0, targetScale = 0.3, targetY = 0.15\<rparr>"
    by simp
  have h3: "[1000000, 0.016 :: real] \<noteq> []" by simp
  from idle_motion_bounded_periodic[OF settled_world_state h2 h3] settled_world_state h2 h3
  show ?thesis by blast
qed

section \<open>Verification: modelLoader\<close>


lemma events_since_append: "trace w' = trace w @ es \<Longrightarrow> events_since w w' = es"
  by (simp add: events_since_def)

lemma report_eq: "report onProgress v w = emit_all (fired onProgress v) w"
  by (cases onProgress) (simp_all add: report_def fired_def emit_all_def)

lemma emit_all_emit_all: "emit_all es (emit_all ds w) = emit_all (ds @ es) w"
  by (simp add: emit_all_def)

lemma report_xhrs_eq: "report_xhrs onProgress xs w = emit_all (xhr_events onProgress xs) w"
proof (induction xs arbitrary: w)
  case Nil
  show ?case by (simp add: xhr_events_def emit_all_def)
next
  case (Cons x xs)
  show ?case
    by (simp add: Cons.IH report_eq emit_all_emit_all)
       (simp add: xhr_events_def emit_all_def)
qed


text \<open>The three outcomes of \<open>loadModel\<close>, in closed form.\<close>

lemma loadModel_cached:
  assumes "map_of (modelCache w) key = Some cached"
  shows "loadModel e key cb w =
    (Resolved (Some (next_id w)),
     w\<lparr>gltfLoader := True, dracoLoader := (dracoLoader w \<or> \<not> gltfLoader w),
       trace := trace w @ loaders_event w @ fired cb (Percent 100),
       heap := (heap w)(next_id w := heap w cached),
       next_id := Suc (next_id w)\<rparr>)"
  using assms
  by (simp add: loadModel_def initializeLoaders_def Let_def report_eq emit_all_def emit_def
      clone_def alloc_def loaders_event_def)

lemma loadModel_fetched:
  assumes "map_of (modelCache w) key = None"
    and "gltf_load e (modelPaths key) = (xhrs, GltfLoaded gltf_scene)"
  shows "loadModel e key cb w =
    (Resolved (Some (Suc (next_id w))),
     w\<lparr>gltfLoader := True, dracoLoader := (dracoLoader w \<or> \<not> gltfLoader w),
       trace := trace w @ loaders_event w @ [GltfLoad (modelPaths key)] @ xhr_events cb xhrs @
                fired cb (Percent 100),
       modelCache := AList.update key (next_id w) (modelCache w),
       heap := (heap w)(next_id w := gltf_scene, Suc (next_id w) := gltf_scene),
       next_id := Suc (Suc (next_id w))\<rparr>)"
  using assms
  by (simp add: loadModel_def initializeLoaders_def Let_def report_eq report_xhrs_eq emit_all_def
      emit_def clone_def alloc_def loaders_event_def)

lemma loadModel_failed:
  assumes "map_of (modelCache w) key = None"
    and "gltf_load e (modelPaths key) = (xhrs, GltfError err)"
  shows "loadModel e key cb w =
    (Resolved (Some (next_id w)),
     w\<lparr>gltfLoader := True, dracoLoader := (dracoLoader w \<or> \<not> gltfLoader w),
       trace := trace w @ loaders_event w @ [GltfLoad (modelPaths key)] @ xhr_events cb xhrs @
                fired cb (Percent 100),
       heap := (heap w)(next_id w := blank_object\<lparr>meshes :=
                 [placeholder_mesh key (Suc (next_id w)) (Suc (Suc (next_id w)))]\<rparr>),
       next_id := Suc (Suc (Suc (next_id w)))\<rparr>)"
  using assms
  by (simp add: loadModel_def initializeLoaders_def Let_def report_eq report_xhrs_eq emit_all_def
      emit_def createPlaceholderModel_def fresh_handle_def alloc_def loaders_event_def)







lemma loadModel_outcomes:
  obtains (cached) t where "map_of (modelCache w) key = Some t"
  | (fetched) xhrs gltf_scene where "map_of (modelCache w) key = None"
      "gltf_load e (modelPaths key) = (xhrs, GltfLoaded gltf_scene)"
  | (failed) xhrs err where "map_of (modelCache w) key = None"
      "gltf_load e (modelPaths key) = (xhrs, GltfError err)"
proof (cases "map_of (modelCache w) key")
  case None
  obtain xhrs outcome where g: "gltf_load e (modelPaths key) = (xhrs, outcome)"
    by (cases "gltf_load e (modelPaths key)")
  show ?thesis using None g fetched failed by (cases outcome) auto
next
  case (Some t)
  then show ?thesis by (rule cached)
qed








section \<open>Verification: arController\<close>


lemma dispose_mesh_eq: "dispose_mesh mesh w = emit_all (mesh_disposals mesh) w"
  by (simp add: dispose_mesh_def mesh_disposals_def emit_all_def emit_def Let_def
      split: option.splits material_slot.splits)

lemma fold_dispose_mesh: "fold dispose_mesh ms w = emit_all (concat (map mesh_disposals ms)) w"
proof (induction ms arbitrary: w)
  case Nil
  show ?case by (simp add: emit_all_def)
next
  case (Cons m ms)
  have "fold dispose_mesh (m # ms) w = fold dispose_mesh ms (dispose_mesh m w)" by simp
  also have "\<dots> = emit_all (concat (map mesh_disposals ms)) (emit_all (mesh_disposals m) w)"
    unfolding Cons.IH dispose_mesh_eq ..
  finally show ?case by (simp add: emit_all_emit_all)
qed

lemma disposeModel_eq: "disposeModel model w = emit_all (disposals (heap w model)) w"
  by (simp add: disposeModel_def disposals_def fold_dispose_mesh)

lemma stopAR_eq:
  "stopAR w = w\<lparr>animationFrameId := None, currentModel := None, cameraStream := None,
                 trace := trace w @ stop_events w\<rparr>"
  by (simp add: stopAR_def stop_events_def engine_stop_events_def disposeModel_eq stop_tracks_def
      emit_all_def emit_def Let_def split: option.splits)

lemma stopAR_twice:
  "stopAR (stopAR w) = (stopAR w)\<lparr>trace := trace (stopAR w) @ engine_stop_events w\<rparr>"
  by (simp add: stopAR_eq stop_events_def engine_stop_events_def)

lemma removeCurrentModel_eq:
  "removeCurrentModel a w =
     (case currentModel w of
        None \<Rightarrow> w
      | Some old \<Rightarrow> w\<lparr>anchor := Some (a\<lparr>group := remove1 old (group a)\<rparr>), currentModel := None,
                        trace := trace w @ disposals (heap w old)\<rparr>)"
  by (simp add: removeCurrentModel_def disposeModel_eq emit_all_def split: option.splits)


lemmas init_defs = initializeAR_def checkWebGLSupport_def validateAssets_def waitForMindAR_def
  requestCameraPermission_def setupScene_def setupLighting_def setupShadowPlane_def
  stop_tracks_def emit_all_def emit_def alloc_def fresh_handle_def succeed_def fail_def
  targetPath_def Let_def

lemma ready_world_fields:
  "mindarThree ready_world = Some \<lparr>engine_id = 800, engine_renderer = Some 801,
     engine_scene = Some 802, engine_camera = Some 803\<rparr>"
  "renderer ready_world = Some 801" "scene ready_world = Some 802" "camera ready_world = Some 803"
  "anchor ready_world = Some \<lparr>anchor_id = 804, group = [2],
     listeners = [''targetFound'', ''targetLost'']\<rparr>"
  "currentModel ready_world = None" "animationFrameId ready_world = None"
  "isTracking ready_world = False" "cameraStream ready_world = None"
  "modelCache ready_world = []" "next_id ready_world = 3"
  "animationState ready_world = Map.empty"
  by (simp_all add: ready_world_def env_online_def init_world_def init_defs)

lemma ready_world_result: "fst (initializeAR env_online 0 init_world) = succeed"
  by (simp add: env_online_def init_world_def init_defs)


lemma checkWebGLSupport_world: "snd (checkWebGLSupport e w) = emit_all (webgl_events e) w"
  by (simp add: checkWebGLSupport_def webgl_events_def emit_all_def emit_def Let_def
      split: attempt.splits bool.splits)

lemma checkWebGLSupport_result:
  "fst (checkWebGLSupport e w) = succeed \<or> fst (checkWebGLSupport e w) = webgl_unsupported \<or>
   fst (checkWebGLSupport e w) = webgl_exception"
  by (simp add: checkWebGLSupport_def Let_def split: attempt.splits bool.splits)

lemma webgl_events_plain:
  "GetUserMedia \<notin> set (webgl_events e)" "HeadRequest p \<notin> set (webgl_events e)"
  "NewMindARThree c p \<notin> set (webgl_events e)"
  by (simp_all add: webgl_events_def)

lemma initializeAR_webgl_failure:
  assumes "\<not> success (fst (checkWebGLSupport e w))"
  shows "initializeAR e container w = checkWebGLSupport e w"
  using assms by (simp add: initializeAR_def case_prod_unfold)

lemma validateAssets_missing_target:
  assumes "fetch_head e targetPath = Returns targetResponse" "\<not> ok targetResponse"
  shows "validateAssets e w =
     (fail ''validation'' (''AR tracking file is missing ('' @ targetPath @
        ''). Please ensure the target file is properly deployed.''),
      emit (HeadRequest targetPath) w)"
  using assms by (simp add: validateAssets_def Let_def)

lemma initializeAR_missing_target_after_webgl:
  assumes "success (fst (checkWebGLSupport e w))"
    and "fetch_head e targetPath = Returns targetResponse" "\<not> ok targetResponse"
  shows "initializeAR e container w =
     (fail ''validation'' (''AR tracking file is missing ('' @ targetPath @
        ''). Please ensure the target file is properly deployed.''),
      emit_all (webgl_events e @ [HeadRequest targetPath]) w)"
proof -
  obtain r w1 where c: "checkWebGLSupport e w = (r, w1)" by (cases "checkWebGLSupport e w")
  have r: "success r" using assms(1) c by simp
  have w1: "w1 = emit_all (webgl_events e) w" using checkWebGLSupport_world[of e w] c by simp
  show ?thesis
    unfolding initializeAR_def c
    by (simp add: r validateAssets_missing_target[OF assms(2,3)] fail_def w1 emit_def emit_all_def)
qed

text \<open>
  Claim C1. When the HEAD request for the tracking target answers with a response that is
  not ok, \<open>initializeAR\<close> never calls \<open>getUserMedia\<close> and never constructs the engine,
  and it changes no session variable; and whenever that request was issued during the call
  (the graphics check passed), the result is \<open>{success: false}\<close> with type \<open>validation\<close>
  and a message naming the target path, the request being the last operation of the call.
\<close>

theorem initializeAR_missing_target:
  assumes "fetch_head e targetPath = Returns targetResponse" and "\<not> ok targetResponse"
  shows "GetUserMedia \<notin> set (events_since w (snd (initializeAR e container w))) \<and>
         (\<forall>c p. NewMindARThree c p \<notin> set (events_since w (snd (initializeAR e container w)))) \<and>
         snd (initializeAR e container w) =
           w\<lparr>trace := trace w @ events_since w (snd (initializeAR e container w))\<rparr> \<and>
         (HeadRequest targetPath \<in> set (events_since w (snd (initializeAR e container w))) \<longrightarrow>
            fst (initializeAR e container w) =
              \<lparr>success = False, error = Some \<lparr>type = ''validation'',
                 message = ''AR tracking file is missing ('' @ targetPath @
                   ''). Please ensure the target file is properly deployed.''\<rparr>\<rparr> \<and>
            events_since w (snd (initializeAR e container w)) =
              webgl_events e @ [HeadRequest targetPath])"
proof (cases "success (fst (checkWebGLSupport e w))")
  case True
  show ?thesis
    unfolding initializeAR_missing_target_after_webgl[OF True assms]
    by (simp add: events_since_def emit_all_def webgl_events_plain fail_def)
next
  case False
  show ?thesis
    unfolding initializeAR_webgl_failure[OF False] checkWebGLSupport_world
    by (simp add: events_since_def emit_all_def webgl_events_plain)
qed

text \<open>
  Claim C1, a concrete run: the target answers 404, everything else works.
\<close>

theorem initializeAR_missing_target_witness:
  "fetch_head env_missing_target targetPath = Returns \<lparr>ok = False, status = 404\<rparr> \<and>
   \<not> ok \<lparr>ok = False, status = 404\<rparr> \<and>
   HeadRequest targetPath \<in> set (events_since init_world (snd (initializeAR env_missing_target 0 init_world))) \<and>
   fst (initializeAR env_missing_target 0 init_world) =
     \<lparr>success = False, error = Some \<lparr>type = ''validation'',
        message = ''AR tracking file is missing ('' @ targetPath @
          ''). Please ensure the target file is properly deployed.''\<rparr>\<rparr> \<and>
   GetUserMedia \<notin> set (events_since init_world (snd (initializeAR env_missing_target 0 init_world)))"
proof -
  have h1: "fetch_head env_missing_target targetPath = Returns \<lparr>ok = False, status = 404\<rparr>"
    by (simp add: env_missing_target_def)
  have h2: "\<not> ok \<lparr>ok = False, status = 404\<rparr>" by simp
  have h3: "HeadRequest targetPath \<in>
      set (events_since init_world (snd (initializeAR env_missing_target 0 init_world)))"
    by (simp add: env_missing_target_def env_online_def init_world_def init_defs events_since_def)
  from initializeAR_missing_target[OF h1 h2, of init_world 0] h1 h2 h3
  show ?thesis by blast
qed

text \<open>
  Claim C2, as the code has it. When the graphics check fails (no context, or the probe
  throws), \<open>initializeAR\<close> returns the check's own result, \<open>{success: false}\<close> with the
  error type \<open>webgl\<close>, after the context probes only.
\<close>

theorem initializeAR_no_webgl:
  assumes "\<not> success (fst (checkWebGLSupport e w))"
  shows "initializeAR e container w = checkWebGLSupport e w \<and>
         (fst (initializeAR e container w) = webgl_unsupported \<or>
          fst (initializeAR e container w) = webgl_exception) \<and>
         \<not> success (fst (initializeAR e container w)) \<and>
         map_option type (error (fst (initializeAR e container w))) = Some ''webgl'' \<and>
         snd (initializeAR e container w) = w\<lparr>trace := trace w @ webgl_events e\<rparr>"
proof -
  note i = initializeAR_webgl_failure[OF assms, of container]
  from checkWebGLSupport_result[of e w] assms
  have r: "fst (checkWebGLSupport e w) = webgl_unsupported \<or>
           fst (checkWebGLSupport e w) = webgl_exception"
    by (auto simp: succeed_def)
  then have t: "map_option type (error (fst (checkWebGLSupport e w))) = Some ''webgl''"
    by (auto simp: webgl_unsupported_def webgl_exception_def fail_def)
  show ?thesis unfolding i using r t assms checkWebGLSupport_world[of e w]
    by (simp add: emit_all_def)
qed

text \<open>
  Claim C2 as stated fails: with no graphics context the error type is \<open>webgl\<close>, not
  \<open>capability\<close>.
\<close>

theorem initializeAR_no_webgl_counterexample:
  "fst (initializeAR env_no_webgl 0 init_world) = webgl_unsupported \<and>
   map_option type (error (fst (initializeAR env_no_webgl 0 init_world))) = Some ''webgl'' \<and>
   map_option type (error (fst (initializeAR env_no_webgl 0 init_world))) \<noteq> Some ''capability''"
  by (simp add: env_no_webgl_def env_online_def init_world_def init_defs webgl_unsupported_def)

text \<open>
  Claim C2, a concrete run: a browser that creates no graphics context.
\<close>

theorem initializeAR_no_webgl_witness:
  "\<not> success (fst (checkWebGLSupport env_no_webgl init_world)) \<and>
   initializeAR env_no_webgl 0 init_world = checkWebGLSupport env_no_webgl init_world \<and>
   map_option type (error (fst (initializeAR env_no_webgl 0 init_world))) = Some ''webgl''"
proof -
  have h: "\<not> success (fst (checkWebGLSupport env_no_webgl init_world))"
    by (simp add: env_no_webgl_def env_online_def init_defs webgl_unsupported_def)
  from initializeAR_no_webgl[OF h, of 0] h show ?thesis by blast
qed


lemmas load_defs = switchModel_def switchModel_with_def removeCurrentModel_eq loadModel_def
  initializeLoaders_def report_def report_xhrs_eq xhr_events_def fired_def clone_def modelPaths_def

lemma shown_world_fields:
  "mindarThree shown_world = mindarThree ready_world"
  "renderer shown_world = Some 801" "scene shown_world = Some 802" "camera shown_world = Some 803"
  "anchor shown_world = Some \<lparr>anchor_id = 804, group = [2, 4],
     listeners = [''targetFound'', ''targetLost'']\<rparr>"
  "currentModel shown_world = Some 4" "animationFrameId shown_world = None"
  "isTracking shown_world = False" "cameraStream shown_world = None"
  "modelCache shown_world = [(Bear, 3)]" "next_id shown_world = 5"
  "animationState shown_world = Map.empty"
  "meshes (heap shown_world 4) = map prepare_mesh (meshes sample_scene)"
  by (simp_all add: shown_world_def ready_world_fields load_defs env_online_def emit_all_def
      emit_def alloc_def Let_def)

lemma started_world_fields:
  "mindarThree started_world = mindarThree ready_world"
  "renderer started_world = Some 801" "scene started_world = Some 802"
  "camera started_world = Some 803"
  "anchor started_world = anchor shown_world"
  "currentModel started_world = Some 4" "animationFrameId started_world = Some 5"
  "isTracking started_world = False" "cameraStream started_world = None"
  "animationState started_world = Map.empty"
  "meshes (heap started_world 4) = map prepare_mesh (meshes sample_scene)"
  by (simp_all add: started_world_def startAR_def startRenderLoop_def animate_def
      shown_world_fields ready_world_fields env_online_def emit_def fresh_handle_def Let_def)

lemma tracked_world_fields:
  "mindarThree tracked_world = Some \<lparr>engine_id = 800, engine_renderer = Some 801,
     engine_scene = Some 802, engine_camera = Some 803\<rparr>"
  "renderer tracked_world = Some 801" "scene tracked_world = Some 802"
  "camera tracked_world = Some 803"
  "anchor tracked_world = Some \<lparr>anchor_id = 804, group = [2, 4],
     listeners = [''targetFound'', ''targetLost'']\<rparr>"
  "currentModel tracked_world = Some 4" "animationFrameId tracked_world = Some 5"
  "isTracking tracked_world = True" "cameraStream tracked_world = None"
  "animationState tracked_world 4 =
     Some \<lparr>emergenceProgress = 0, idleTime = 0, targetScale = 0.3, targetY = 0.15\<rparr>"
  "meshes (heap tracked_world 4) = map prepare_mesh (meshes sample_scene)"
  by (simp_all add: tracked_world_def onTargetFound_def startEmergenceAnimation_def
      started_world_fields shown_world_fields ready_world_fields Let_def)

text \<open>
  Claim C5, as the code has it. \<open>stopAR\<close> clears the frame handle, the active-model
  reference and the camera-probe stream, and performs the operations \<open>stop_events\<close>
  (cancel the frame, stop the engine, dispose the model, stop the stream's tracks); the
  engine handle, renderer, scene, camera, anchor and tracking flag are left as they were.
\<close>

theorem stopAR_clears:
  "animationFrameId (stopAR w) = None \<and> currentModel (stopAR w) = None \<and>
   cameraStream (stopAR w) = None \<and>
   mindarThree (stopAR w) = mindarThree w \<and> renderer (stopAR w) = renderer w \<and>
   scene (stopAR w) = scene w \<and> camera (stopAR w) = camera w \<and> anchor (stopAR w) = anchor w \<and>
   isTracking (stopAR w) = isTracking w \<and>
   trace (stopAR w) = trace w @ stop_events w \<and>
   stopAR w = w\<lparr>animationFrameId := None, currentModel := None, cameraStream := None,
                 trace := trace w @ stop_events w\<rparr>"
  by (simp add: stopAR_eq)

text \<open>
  Claim C5 as stated fails: after \<open>stopAR\<close> on a tracking session the engine handle,
  renderer, scene, camera and anchor are still set and the tracking flag is still true.
\<close>

theorem stopAR_clears_counterexample:
  "mindarThree (stopAR tracked_world) = Some \<lparr>engine_id = 800, engine_renderer = Some 801,
     engine_scene = Some 802, engine_camera = Some 803\<rparr> \<and>
   renderer (stopAR tracked_world) = Some 801 \<and> scene (stopAR tracked_world) = Some 802 \<and>
   camera (stopAR tracked_world) = Some 803 \<and>
   anchor (stopAR tracked_world) = Some \<lparr>anchor_id = 804, group = [2, 4],
     listeners = [''targetFound'', ''targetLost'']\<rparr> \<and>
   isTracking (stopAR tracked_world) = True"
  by (simp add: stopAR_eq tracked_world_fields)

text \<open>
  Claim C5, a concrete run: the tracking session loses its model and its frame handle.
\<close>

theorem stopAR_clears_witness:
  "currentModel tracked_world = Some 4 \<and> animationFrameId tracked_world = Some 5 \<and>
   currentModel (stopAR tracked_world) = None \<and> animationFrameId (stopAR tracked_world) = None \<and>
   cameraStream (stopAR tracked_world) = None"
  using stopAR_clears[of tracked_world] by (simp add: tracked_world_fields)

text \<open>
  Claim C6, as the code has it. A second consecutive \<open>stopAR\<close> changes no session
  variable; its only operation is another \<open>stop()\<close> of the engine when an engine handle
  exists, since the handle is never cleared. Without a handle the second call does nothing,
  and on a session with nothing to release (such as one never initialized) \<open>stopAR\<close>
  does nothing at all.
\<close>

theorem stopAR_repeated:
  "stopAR (stopAR w) = (stopAR w)\<lparr>trace := trace (stopAR w) @ engine_stop_events w\<rparr> \<and>
   events_since (stopAR w) (stopAR (stopAR w)) = engine_stop_events w \<and>
   (mindarThree w = None \<longrightarrow> stopAR (stopAR w) = stopAR w) \<and>
   (mindarThree w = None \<and> animationFrameId w = None \<and> currentModel w = None \<and>
      cameraStream w = None \<longrightarrow> stopAR w = w) \<and>
   stopAR init_world = init_world"
proof -
  have a: "stopAR (stopAR w) = (stopAR w)\<lparr>trace := trace (stopAR w) @ engine_stop_events w\<rparr>"
    by (rule stopAR_twice)
  have b: "events_since (stopAR w) (stopAR (stopAR w)) = engine_stop_events w"
    by (subst a) (simp add: events_since_def)
  have c: "mindarThree w = None \<longrightarrow> stopAR (stopAR w) = stopAR w"
    by (subst a) (simp add: engine_stop_events_def)
  have d: "mindarThree w = None \<and> animationFrameId w = None \<and> currentModel w = None \<and>
      cameraStream w = None \<longrightarrow> stopAR w = w"
    by (simp add: stopAR_eq stop_events_def engine_stop_events_def)
  have e: "stopAR init_world = init_world"
    by (simp add: stopAR_eq stop_events_def engine_stop_events_def init_world_def)
  from a b c d e show ?thesis by blast
qed

text \<open>
  Claim C6 as stated fails: a second consecutive \<open>stopAR\<close>, and a \<open>stopAR\<close> after
  initialization and before any start, each call the engine's \<open>stop()\<close>.
\<close>

theorem stopAR_repeated_counterexample:
  "events_since (stopAR tracked_world) (stopAR (stopAR tracked_world)) = [EngineStop 800] \<and>
   events_since ready_world (stopAR ready_world) = [EngineStop 800]"
  by (simp add: stopAR_twice stopAR_eq events_since_def engine_stop_events_def stop_events_def
      tracked_world_fields ready_world_fields)

text \<open>
  Claim C6, concrete runs: the initial session, and the tracking session.
\<close>

theorem stopAR_repeated_witness:
  "mindarThree init_world = None \<and> animationFrameId init_world = None \<and>
   currentModel init_world = None \<and> cameraStream init_world = None \<and>
   stopAR init_world = init_world \<and> stopAR (stopAR init_world) = stopAR init_world \<and>
   events_since (stopAR tracked_world) (stopAR (stopAR tracked_world)) =
     engine_stop_events tracked_world"
proof -
  have h: "mindarThree init_world = None" "animationFrameId init_world = None"
    "currentModel init_world = None" "cameraStream init_world = None"
    by (simp_all add: init_world_def)
  from stopAR_repeated[of init_world] stopAR_repeated[of tracked_world] h
  show ?thesis by blast
qed


lemma loadModel_frame:
  "animationState (snd (loadModel e key cb w)) = animationState w"
  "currentModel (snd (loadModel e key cb w)) = currentModel w"
  "anchor (snd (loadModel e key cb w)) = anchor w"
  "isTracking (snd (loadModel e key cb w)) = isTracking w"
proof -
  have "animationState (snd (loadModel e key cb w)) = animationState w \<and>
        currentModel (snd (loadModel e key cb w)) = currentModel w \<and>
        anchor (snd (loadModel e key cb w)) = anchor w \<and>
        isTracking (snd (loadModel e key cb w)) = isTracking w"
  proof (cases rule: loadModel_outcomes[where w=w and key=key and e=e])
    case (cached t)
    show ?thesis unfolding loadModel_cached[OF cached] by simp
  next
    case (fetched xhrs gltf_scene)
    show ?thesis unfolding loadModel_fetched[OF fetched] by simp
  next
    case (failed xhrs err)
    show ?thesis unfolding loadModel_failed[OF failed] by simp
  qed
  then show "animationState (snd (loadModel e key cb w)) = animationState w"
    "currentModel (snd (loadModel e key cb w)) = currentModel w"
    "anchor (snd (loadModel e key cb w)) = anchor w"
    "isTracking (snd (loadModel e key cb w)) = isTracking w" by blast+
qed

lemma loadModel_resolves: "\<exists>h. fst (loadModel e key cb w) = Resolved (Some h)"
proof (cases rule: loadModel_outcomes[where w=w and key=key and e=e])
  case (cached t)
  show ?thesis unfolding loadModel_cached[OF cached] by simp
next
  case (fetched xhrs gltf_scene)
  show ?thesis unfolding loadModel_fetched[OF fetched] by simp
next
  case (failed xhrs err)
  show ?thesis unfolding loadModel_failed[OF failed] by simp
qed

lemma removeCurrentModel_frame:
  "animationState (removeCurrentModel a w) = animationState w"
  "currentModel (removeCurrentModel a w) = None"
  "isTracking (removeCurrentModel a w) = isTracking w"
  by (simp_all add: removeCurrentModel_eq split: option.splits)

text \<open>
  Claim C9, as the code has it. \<open>disposeModel\<close> leaves the animation-state table as it
  is, and so do \<open>stopAR\<close> and the removal step of \<open>switchModel\<close>, which call it;
  across a whole \<open>switchModel\<close> no entry of the table disappears.
\<close>

theorem disposal_keeps_animation_state:
  "animationState (disposeModel model w) = animationState w \<and>
   animationState (stopAR w) = animationState w \<and>
   animationState (removeCurrentModel a w) = animationState w \<and>
   dom (animationState w) \<subseteq> dom (animationState (snd (switchModel e modelName w)))"
proof -
  have a: "animationState (disposeModel model w) = animationState w"
    by (simp add: disposeModel_eq emit_all_def)
  have b: "animationState (stopAR w) = animationState w" by (simp add: stopAR_eq)
  have c: "animationState (removeCurrentModel a w) = animationState w"
    by (rule removeCurrentModel_frame)
  have d: "dom (animationState w) \<subseteq> dom (animationState (snd (switchModel e modelName w)))"
  proof (cases "anchor w")
    case None
    then show ?thesis by (simp add: switchModel_def switchModel_with_def)
  next
    case (Some a')
    let ?w1 = "removeCurrentModel a' w"
    obtain h where h: "fst (loadModel e modelName None ?w1) = Resolved (Some h)"
      using loadModel_resolves by blast
    define w2 where "w2 = snd (loadModel e modelName None ?w1)"
    have l: "loadModel e modelName None ?w1 = (Resolved (Some h), w2)"
      using h by (simp add: w2_def prod_eq_iff)
    have s: "animationState w2 = animationState w"
      unfolding w2_def by (simp add: loadModel_frame removeCurrentModel_frame)
    show ?thesis
      unfolding switchModel_def switchModel_with_def
      using Some l s
      by (auto simp: Let_def startEmergenceAnimation_def split: option.splits)
  qed
  from a b c d show ?thesis by blast
qed

text \<open>
  Claim C9 as stated fails: \<open>stopAR\<close> on the tracking session disposes the model
  (geometry 900, material 901) and clears the reference to it, and the model's entry is
  still in the animation-state table.
\<close>

theorem disposal_keeps_animation_state_counterexample:
  "currentModel tracked_world = Some 4 \<and>
   events_since tracked_world (stopAR tracked_world) =
     [CancelAnimationFrame 5, EngineStop 800, DisposeGeometry 900, DisposeMaterial 901] \<and>
   currentModel (stopAR tracked_world) = None \<and>
   animationState (stopAR tracked_world) 4 =
     Some \<lparr>emergenceProgress = 0, idleTime = 0, targetScale = 0.3, targetY = 0.15\<rparr>"
  by (simp add: stopAR_eq events_since_def stop_events_def engine_stop_events_def disposals_def
      mesh_disposals_def prepare_mesh_def refresh_material_def sample_scene_def tracked_world_fields)

text \<open>
  Claim C10. With an anchor present, \<open>switchModel\<close> first removes the current model
  (out of the anchor's group, disposed, reference cleared) and then awaits the loader on
  that state; when the loader resolves with null or rejects, \<open>switchModel\<close> returns
  normally with the loader's state, in which no model is attached.
\<close>

theorem switchModel_failed_load:
  assumes "anchor w = Some a"
    and "fst (load modelName (removeCurrentModel a w)) = Resolved None \<or>
         fst (load modelName (removeCurrentModel a w)) = Rejected err"
    and "currentModel (snd (load modelName (removeCurrentModel a w))) =
         currentModel (removeCurrentModel a w)"
  shows "switchModel_with load modelName w =
           (Returns (), snd (load modelName (removeCurrentModel a w))) \<and>
         currentModel (snd (switchModel_with load modelName w)) = None \<and>
         removeCurrentModel a w =
           (case currentModel w of
              None \<Rightarrow> w
            | Some old \<Rightarrow> w\<lparr>anchor := Some (a\<lparr>group := remove1 old (group a)\<rparr>),
                 currentModel := None, trace := trace w @ disposals (heap w old)\<rparr>)"
proof -
  obtain r w2 where l: "load modelName (removeCurrentModel a w) = (r, w2)"
    by (cases "load modelName (removeCurrentModel a w)")
  from assms(2) l have r: "r = Resolved None \<or> r = Rejected err" by simp
  have s: "switchModel_with load modelName w = (Returns (), w2)"
    unfolding switchModel_with_def using assms(1) l r by auto
  have c: "currentModel w2 = None"
    using assms(3) l by (simp add: removeCurrentModel_frame)
  show ?thesis using s c l by (simp add: removeCurrentModel_eq)
qed

text \<open>
  Claim C10, concrete runs on the tracking session: a loader that rejects and one that
  resolves with null.
\<close>

theorem switchModel_failed_load_witness:
  "anchor tracked_world = Some \<lparr>anchor_id = 804, group = [2, 4],
     listeners = [''targetFound'', ''targetLost'']\<rparr> \<and>
   currentModel tracked_world = Some 4 \<and>
   fst (switchModel_with rejecting_loader Bear tracked_world) = Returns () \<and>
   currentModel (snd (switchModel_with rejecting_loader Bear tracked_world)) = None \<and>
   fst (switchModel_with null_loader Deer tracked_world) = Returns () \<and>
   currentModel (snd (switchModel_with null_loader Deer tracked_world)) = None"
proof -
  let ?a = "\<lparr>anchor_id = 804, group = [2, 4], listeners = [''targetFound'', ''targetLost'']\<rparr>"
  have h1: "anchor tracked_world = Some ?a" by (simp add: tracked_world_fields)
  have h2: "fst (rejecting_loader Bear (removeCurrentModel ?a tracked_world)) = Resolved None \<or>
            fst (rejecting_loader Bear (removeCurrentModel ?a tracked_world)) =
              Rejected (Error ''out of memory'')"
    by (simp add: rejecting_loader_def)
  have h3: "currentModel (snd (rejecting_loader Bear (removeCurrentModel ?a tracked_world))) =
            currentModel (removeCurrentModel ?a tracked_world)"
    by (simp add: rejecting_loader_def)
  have k2: "fst (null_loader Deer (removeCurrentModel ?a tracked_world)) = Resolved None \<or>
            fst (null_loader Deer (removeCurrentModel ?a tracked_world)) = Rejected err" for err
    by (simp add: null_loader_def)
  have k3: "currentModel (snd (null_loader Deer (removeCurrentModel ?a tracked_world))) =
            currentModel (removeCurrentModel ?a tracked_world)"
    by (simp add: null_loader_def)
  note r = switchModel_failed_load[where w=tracked_world and a="?a" and load=rejecting_loader
      and modelName=Bear and err="Error ''out of memory''", OF h1 h2 h3]
  note n = switchModel_failed_load[where w=tracked_world and a="?a" and load=null_loader
      and modelName=Deer and err="Error ''out of memory''", OF h1 k2 k3]
  have r1: "fst (switchModel_with rejecting_loader Bear tracked_world) = Returns ()"
    using r[THEN conjunct1] by simp
  have n1: "fst (switchModel_with null_loader Deer tracked_world) = Returns ()"
    using n[THEN conjunct1] by simp
  have c: "currentModel tracked_world = Some 4" by (simp add: tracked_world_fields)
  from h1 c r1 r[THEN conjunct2, THEN conjunct1] n1 n[THEN conjunct2, THEN conjunct1]
  show ?thesis by blast
qed

section \<open>Verification: the model cache\<close>











section \<open>Verification: switchModel with the repository's loader\<close>

text \<open>
  With the repository's own \<open>loadModel\<close>, a failed fetch does not take the paths of
  claim C10: the loader resolves with a placeholder, which \<open>switchModel\<close> attaches.
\<close>

lemma switchModel_attaches_placeholder:
  assumes "anchor w = Some a" and "map_of (modelCache w) modelName = None"
    and "gltf_load e (modelPaths modelName) = (xhrs, GltfError err)"
  shows "fst (switchModel e modelName w) = Returns () \<and>
         currentModel (snd (switchModel e modelName w)) = Some (next_id w)"
proof -
  let ?w1 = "removeCurrentModel a w"
  have c: "map_of (modelCache ?w1) modelName = None" and n: "next_id ?w1 = next_id w"
    and an: "anchor ?w1 \<noteq> None"
    using assms(1,2) by (simp_all add: removeCurrentModel_eq split: option.splits)
  note f = loadModel_failed[OF c assms(3), where cb=None]
  from an obtain a1 where a1: "anchor ?w1 = Some a1" by blast
  show ?thesis
    unfolding switchModel_def switchModel_with_def
    using assms(1) a1 by (simp add: f n Let_def startEmergenceAnimation_def)
qed

text \<open>
  Claim C9, a concrete run: disposing the tracked model leaves its entry in the table.
\<close>

theorem disposal_keeps_animation_state_witness:
  "animationState (disposeModel 4 tracked_world) 4 =
     Some \<lparr>emergenceProgress = 0, idleTime = 0, targetScale = 0.3, targetY = 0.15\<rparr>"
  using disposal_keeps_animation_state[of 4 tracked_world] by (simp add: tracked_world_fields)

end
